theory Spec2Isabelle
  imports Main
begin

section \<open>Data model\<close>

text \<open>
  The response types of the HTTP layer (\<^verbatim>\<open>src/main.go\<close>, lines 15--42). A Go pointer is
  an \<open>option\<close>: \<open>None\<close> is \<^verbatim>\<open>nil\<close>. The status code is only ever copied, so
  the Go \<^verbatim>\<open>int\<close> is an \<open>int\<close>.
\<close>

record MessageID =
  ID :: string

record ResponseContact =
  Input :: string
  WhatsappID :: string

record ResponseMessage =
  Product :: string
  Contacts :: "ResponseContact option list"
  Messages :: "MessageID option list"

record whttp_Response =
  wStatusCode :: int
  wHeaders :: "(string \<times> string list) list"
  wMessage :: "ResponseMessage option"

text \<open>The flattened outcome of the action (\<^verbatim>\<open>part_002\<close>, lines 34--38).\<close>

record Response =
  StatusCode :: int
  Receiver :: string
  MessageID :: string

text \<open>A goroutine that panics takes the whole process down; these are the panics the
  program can raise.\<close>

datatype panic = NilDereference | SendOnClosedChannel | CloseOfClosedChannel

section \<open>flattenResponse\<close>

text \<open>
  \<^verbatim>\<open>part_002\<close>, lines 41--51. The guard of line 43 protects only the read of the
  message identifier; line 47 reads \<^verbatim>\<open>response.StatusCode\<close> whatever the guard found.
  \<^verbatim>\<open>Messages\<close> is a slice of pointers, so \<^verbatim>\<open>Messages[0].ID\<close> dereferences its
  first element.
\<close>

definition messageID_of :: "whttp_Response option \<Rightarrow> panic + string" where
  "messageID_of response =
     (case response of
        None \<Rightarrow> Inr ''''
      | Some r \<Rightarrow>
          (case wMessage r of
             None \<Rightarrow> Inr ''''
           | Some m \<Rightarrow>
               (case Messages m of
                  [] \<Rightarrow> Inr ''''
                | None # _ \<Rightarrow> Inl NilDereference
                | Some first # _ \<Rightarrow> Inr (ID first))))"

definition flattenResponse :: "string \<Rightarrow> whttp_Response option \<Rightarrow> panic + Response" where
  "flattenResponse receiver response =
     (case messageID_of response of
        Inl p \<Rightarrow> Inl p
      | Inr messageID \<Rightarrow>
          (case response of
             None \<Rightarrow> Inl NilDereference
           | Some r \<Rightarrow>
               Inr \<lparr>StatusCode = wStatusCode r, Receiver = receiver, MessageID = messageID\<rparr>))"

section \<open>The environment of the action\<close>

text \<open>
  \<^verbatim>\<open>strings.Split\<close> of the Go standard library at a one-byte separator (main passes
  \<^verbatim>\<open>","\<close>, \<^verbatim>\<open>part_002\<close> line 177): the pieces of the string between the separators,
  the empty string included, so the result always has one piece more than the string
  has separators.
\<close>

fun Split :: "string \<Rightarrow> char \<Rightarrow> string list" where
  "Split [] sep = [[]]"
| "Split (c # cs) sep =
     (if c = sep then [] # Split cs sep
      else (case Split cs sep of
              [] \<Rightarrow> [[c]]
            | piece # pieces \<Rightarrow> (c # piece) # pieces))"

text \<open>The recipient list that \<^verbatim>\<open>main\<close> builds from \<^verbatim>\<open>INPUT_RECIPIENTS\<close>
  (\<^verbatim>\<open>part_002\<close>, line 177).\<close>

definition main_Recipients :: "string \<Rightarrow> string list" where
  "main_Recipients INPUT_RECIPIENTS = Split INPUT_RECIPIENTS (CHR '','')"

text \<open>
  Errors are values. \<open>NoRecipients\<close> is \<^verbatim>\<open>fmt.Errorf("no recipients specified")\<close>
  (line 57), \<open>Canceled\<close> is \<^verbatim>\<open>context.Canceled\<close>, the value of \<^verbatim>\<open>ctx.Err()\<close> once
  the context is done (line 103), \<open>SendFailed\<close> is the error
  \<^verbatim>\<open>"failed to send text message: ..."\<close> that \<^verbatim>\<open>SendTextMessage\<close> returns
  (\<^verbatim>\<open>src/main.go\<close>, line 172) and \<open>Joined\<close> is what \<^verbatim>\<open>errors.Join\<close> builds.
\<close>

datatype error = NoRecipients | Canceled | SendFailed string | Joined "error list"

text \<open>\<^verbatim>\<open>errors.Join\<close>: the nil errors are dropped; nil when nothing is left.\<close>

definition errors_Join :: "error option list \<Rightarrow> error option" where
  "errors_Join errs =
     (case List.map_filter id errs of [] \<Rightarrow> None | e # es \<Rightarrow> Some (Joined (e # es)))"

text \<open>How many errors an error value carries: the members of a join, one otherwise.\<close>

fun joined_count :: "error option \<Rightarrow> nat" where
  "joined_count None = 0"
| "joined_count (Some (Joined es)) = length es"
| "joined_count (Some _) = 1"

text \<open>
  What one call of \<^verbatim>\<open>client.SendTextMessage\<close> returns: an error, or a response pointer
  and a nil error. The remote service and the transport decide it. The call is given
  the context of the group and may observe its cancellation, so the environment of a
  run fixes, for the task of each position in the recipient list, the result of its
  call when the context is still live as the call returns and the result when the
  context is done.
\<close>

type_synonym send_result = "error + whttp_Response option"

type_synonym env = "nat \<Rightarrow> bool \<Rightarrow> send_result"

section \<open>The goroutines of \<^verbatim>\<open>part_002\<close> as a transition system\<close>

text \<open>
  Four kinds of goroutine run: \<^verbatim>\<open>main\<close>; the goroutine of line 191 that calls
  \<^verbatim>\<open>Run\<close> and sends its result on main's \<^verbatim>\<open>errChan\<close>; the goroutine of line 94 that
  calls \<^verbatim>\<open>run\<close> (the coordinator) and sends its result on \<^verbatim>\<open>Run\<close>'s \<^verbatim>\<open>errChan\<close>; and
  one task per recipient, started by \<^verbatim>\<open>errg.Go\<close> (line 130). Each has a program
  counter; a step of the system is one step of one goroutine, or the arrival of an
  interrupt signal.

  The Go runtime gives the rest: a panic in any goroutine ends the process, and so does
  \<^verbatim>\<open>os.Exit\<close> or the return of \<^verbatim>\<open>main\<close>; a receive from an empty open channel and a
  send to a full one block; a goroutine that stays blocked stays blocked, and since
  \<^verbatim>\<open>signal.Notify\<close> is in use the runtime does not end a process whose goroutines are
  all blocked. The group of \<^verbatim>\<open>golang.org/x/sync/errgroup\<close> follows its documentation:
  the context of \<^verbatim>\<open>WithContext\<close> is cancelled the first time a function passed to
  \<^verbatim>\<open>Go\<close> returns a non-nil error or the first time \<^verbatim>\<open>Wait\<close> returns, and \<^verbatim>\<open>Wait\<close>
  blocks until all functions passed to \<^verbatim>\<open>Go\<close> have returned, then returns the first
  non-nil error.
\<close>

datatype main_pc =
    MStart      \<comment> \<open>lines 182--193: contexts and channels made, about to start \<^verbatim>\<open>Run\<close>\<close>
  | MSelect     \<comment> \<open>line 195: the select on \<^verbatim>\<open>nctx.Done()\<close> and \<^verbatim>\<open>signalChan\<close>\<close>
  | MSignalled  \<comment> \<open>line 198: a signal was received, about to print it\<close>
  | MCancel     \<comment> \<open>line 199: \<^verbatim>\<open>cancel()\<close>\<close>
  | MClose      \<comment> \<open>line 202: \<^verbatim>\<open>close(responseChan)\<close>\<close>
  | MDrain      \<comment> \<open>line 204: the range over \<^verbatim>\<open>responseChan\<close>\<close>
  | MPrint Response   \<comment> \<open>line 205: an outcome was received, about to print it\<close>
  | MRecv       \<comment> \<open>line 208: \<^verbatim>\<open>err := <-errChan\<close>\<close>
  | MReport error   \<comment> \<open>line 209: a non-nil error was received, about to print it\<close>
  | MExit       \<comment> \<open>line 210: \<^verbatim>\<open>os.Exit(1)\<close>\<close>

datatype Run_pc =
    RIdle                     \<comment> \<open>not started\<close>
  | REntry                    \<comment> \<open>line 53\<close>
  | RSelect                   \<comment> \<open>line 101\<close>
  | RRange                    \<comment> \<open>line 105: the range over \<^verbatim>\<open>errChan\<close>\<close>
  | RReturn "error option"    \<comment> \<open>\<^verbatim>\<open>Run\<close> has returned; line 192 sends the value\<close>
  | REnd

datatype run_pc =
    CIdle                     \<comment> \<open>not started\<close>
  | CLoop "string list"       \<comment> \<open>line 116, with the recipients still to visit\<close>
  | CWait                     \<comment> \<open>line 133: \<^verbatim>\<open>errg.Wait()\<close>\<close>
  | CClose "error option"     \<comment> \<open>the return of lines 135--139; the deferred close runs\<close>
  | CReturn "error option"    \<comment> \<open>\<^verbatim>\<open>run\<close> has returned; line 95 sends the value\<close>
  | CEnd

datatype task_pc =
    TSend                     \<comment> \<open>line 122: inside \<^verbatim>\<open>SendTextMessage\<close>\<close>
  | TGot send_result          \<comment> \<open>line 123: the call has returned\<close>
  | TEnd "error option"       \<comment> \<open>the closure has returned this value to the group\<close>

datatype status = Running | Exited int | Panicked panic

datatype closer = ByCoordinator | ByMain

datatype stderr_line = ReceivedSignal | ErrorLine error

record state =
  Recipients :: "string list"          \<comment> \<open>\<^verbatim>\<open>inputs.Recipients\<close>\<close>
  status :: status
  mpc :: main_pc
  rpc :: Run_pc
  cpc :: run_pc
  tasks :: "(string \<times> task_pc) list"   \<comment> \<open>the closures given to \<^verbatim>\<open>errg.Go\<close>, each with its recipient\<close>
  signalChan :: nat                    \<comment> \<open>signals waiting in the channel of line 185, capacity 1\<close>
  nctxDone :: bool                     \<comment> \<open>\<^verbatim>\<open>cancel()\<close> of line 183 has been called\<close>
  gctxCancelled :: bool                \<comment> \<open>the group has cancelled its own context\<close>
  gerr :: "error option"               \<comment> \<open>the group's \<^verbatim>\<open>err\<close>: the first error returned\<close>
  wg :: nat                            \<comment> \<open>the group's wait counter\<close>
  responseChan :: "Response list"      \<comment> \<open>line 189, capacity \<^verbatim>\<open>len(inputs.Recipients)\<close>\<close>
  responseClosed :: bool
  closers :: "closer list"             \<comment> \<open>history: who closed \<^verbatim>\<open>responseChan\<close>, in order\<close>
  runErrChan :: "error option list"    \<comment> \<open>line 92, capacity \<^verbatim>\<open>len(inputs.Recipients)\<close>\<close>
  runErrClosed :: bool                 \<comment> \<open>no statement of the program closes this channel\<close>
  allErrors :: "error option list"     \<comment> \<open>line 98\<close>
  mainErrChan :: "error option list"   \<comment> \<open>line 188, capacity 1\<close>
  stdout :: "Response list"            \<comment> \<open>the responses printed by line 205\<close>
  stderr :: "stderr_line list"         \<comment> \<open>the lines printed by lines 198 and 209\<close>

definition init :: "string list \<Rightarrow> state" where
  "init rs =
     \<lparr>Recipients = rs, status = Running, mpc = MStart, rpc = RIdle, cpc = CIdle,
      tasks = [], signalChan = 0, nctxDone = False, gctxCancelled = False,
      gerr = None, wg = 0, responseChan = [], responseClosed = False, closers = [],
      runErrChan = [], runErrClosed = False, allErrors = [], mainErrChan = [],
      stdout = [], stderr = []\<rparr>"

text \<open>
  The context \<^verbatim>\<open>gctx\<close> that \<^verbatim>\<open>errgroup.WithContext(ctx)\<close> derives (line 115) and that
  every task hands to \<^verbatim>\<open>SendTextMessage\<close> (line 122) is done when its parent is, or when
  the group cancels it: the first time a task returns an error, or when \<^verbatim>\<open>Wait\<close>
  returns.
\<close>

definition gctxDone :: "state \<Rightarrow> bool" where
  "gctxDone s = (nctxDone s \<or> gctxCancelled s)"

subsection \<open>main\<close>

text \<open>
  Lines 182--212. \<^verbatim>\<open>nctx\<close> is cancelled by \<^verbatim>\<open>cancel()\<close> alone, and the one call of
  \<^verbatim>\<open>cancel()\<close> is in the signal branch of the select (line 199), after the print of
  line 198. A close of a closed channel panics. The range of line 204 takes what the
  buffer holds, one outcome at a time, each printed by line 205, and ends when the
  channel is closed and empty. Line 208 blocks until \<^verbatim>\<open>Run\<close>'s value arrives; a
  non-nil error is printed (line 209) and then the process exits with status 1 (line
  210), a nil one lets \<^verbatim>\<open>main\<close> return, status 0. Each receive, each print, the
  cancel, the close and the exit is a step of its own, so that another goroutine can
  move, or panic, between any two of them.
\<close>

definition main_step :: "state \<Rightarrow> state option" where
  "main_step s =
     (case mpc s of
        MStart \<Rightarrow> Some (s\<lparr>rpc := REntry, mpc := MSelect\<rparr>)
      | MSelect \<Rightarrow> None
      | MSignalled \<Rightarrow> Some (s\<lparr>stderr := stderr s @ [ReceivedSignal], mpc := MCancel\<rparr>)
      | MCancel \<Rightarrow> Some (s\<lparr>nctxDone := True, mpc := MClose\<rparr>)
      | MClose \<Rightarrow>
          (if responseClosed s then Some (s\<lparr>status := Panicked CloseOfClosedChannel\<rparr>)
           else Some (s\<lparr>responseClosed := True, closers := closers s @ [ByMain],
                        mpc := MDrain\<rparr>))
      | MDrain \<Rightarrow>
          (case responseChan s of
             resp # rest \<Rightarrow> Some (s\<lparr>responseChan := rest, mpc := MPrint resp\<rparr>)
           | [] \<Rightarrow> (if responseClosed s then Some (s\<lparr>mpc := MRecv\<rparr>) else None))
      | MPrint resp \<Rightarrow> Some (s\<lparr>stdout := stdout s @ [resp], mpc := MDrain\<rparr>)
      | MRecv \<Rightarrow>
          (case mainErrChan s of
             [] \<Rightarrow> None
           | None # rest \<Rightarrow> Some (s\<lparr>mainErrChan := rest, status := Exited 0\<rparr>)
           | Some err # rest \<Rightarrow> Some (s\<lparr>mainErrChan := rest, mpc := MReport err\<rparr>))
      | MReport err \<Rightarrow> Some (s\<lparr>stderr := stderr s @ [ErrorLine err], mpc := MExit\<rparr>)
      | MExit \<Rightarrow> Some (s\<lparr>status := Exited 1\<rparr>))"

text \<open>The two branches of the select of line 195.\<close>

definition main_select_done :: "state \<Rightarrow> state option" where
  "main_select_done s =
     (if mpc s = MSelect \<and> nctxDone s then Some (s\<lparr>mpc := MClose\<rparr>) else None)"

definition main_select_signal :: "state \<Rightarrow> state option" where
  "main_select_signal s =
     (if mpc s = MSelect \<and> 0 < signalChan s
      then Some (s\<lparr>signalChan := signalChan s - 1, mpc := MSignalled\<rparr>)
      else None)"

text \<open>\<^verbatim>\<open>signal.Notify\<close> (line 186) delivers without blocking into a channel of capacity 1:
  a signal that finds the channel full is dropped.\<close>

definition signal_arrives :: "state \<Rightarrow> state option" where
  "signal_arrives s = Some (s\<lparr>signalChan := min 1 (signalChan s + 1)\<rparr>)"

subsection \<open>Run\<close>

text \<open>
  Lines 53--110. The construction of the transport, the client and the message (lines
  59--90) has no effect on the shared state. The select of line 101 has two branches;
  the value received by \<^verbatim>\<open>case <-errChan\<close> is not bound to a name. The range of line 105
  ends only when \<^verbatim>\<open>errChan\<close> is closed. Line 192 sends what \<^verbatim>\<open>Run\<close> returned on main's
  \<^verbatim>\<open>errChan\<close>.
\<close>

definition Run_step :: "state \<Rightarrow> state option" where
  "Run_step s =
     (case rpc s of
        RIdle \<Rightarrow> None
      | REntry \<Rightarrow>
          (if length (Recipients s) = 0 then Some (s\<lparr>rpc := RReturn (Some NoRecipients)\<rparr>)
           else Some (s\<lparr>cpc := CLoop (Recipients s), rpc := RSelect\<rparr>))
      | RSelect \<Rightarrow> None
      | RRange \<Rightarrow>
          (case runErrChan s of
             err # rest \<Rightarrow> Some (s\<lparr>runErrChan := rest, allErrors := allErrors s @ [err]\<rparr>)
           | [] \<Rightarrow>
               (if runErrClosed s then Some (s\<lparr>rpc := RReturn (errors_Join (allErrors s))\<rparr>)
                else None))
      | RReturn v \<Rightarrow>
          (if length (mainErrChan s) < 1
           then Some (s\<lparr>mainErrChan := mainErrChan s @ [v], rpc := REnd\<rparr>)
           else None)
      | REnd \<Rightarrow> None)"

definition Run_select_done :: "state \<Rightarrow> state option" where
  "Run_select_done s =
     (if rpc s = RSelect \<and> nctxDone s then Some (s\<lparr>rpc := RReturn (Some Canceled)\<rparr>)
      else None)"

definition Run_select_err :: "state \<Rightarrow> state option" where
  "Run_select_err s =
     (if rpc s = RSelect
      then (case runErrChan s of
              [] \<Rightarrow> None
            | _ # rest \<Rightarrow> Some (s\<lparr>runErrChan := rest, rpc := RRange\<rparr>))
      else None)"

subsection \<open>run, the coordinator\<close>

text \<open>
  Lines 112--140. \<^verbatim>\<open>errg.Go\<close> adds one to the group's wait counter and starts the
  closure in a goroutine of its own. \<^verbatim>\<open>errg.Wait\<close> blocks until the counter is zero,
  cancels the group's context and returns the group's error. The close of line 134 is
  deferred: it runs when \<^verbatim>\<open>run\<close> returns, which both branches of lines 135--139 do
  with the value of \<^verbatim>\<open>err\<close>. Line 95 sends that value on \<^verbatim>\<open>Run\<close>'s \<^verbatim>\<open>errChan\<close>.
\<close>

definition run_step :: "state \<Rightarrow> state option" where
  "run_step s =
     (case cpc s of
        CIdle \<Rightarrow> None
      | CLoop [] \<Rightarrow> Some (s\<lparr>cpc := CWait\<rparr>)
      | CLoop (recipient # rest) \<Rightarrow>
          Some (s\<lparr>tasks := tasks s @ [(recipient, TSend)], wg := wg s + 1,
                  cpc := CLoop rest\<rparr>)
      | CWait \<Rightarrow>
          (if wg s = 0 then Some (s\<lparr>gctxCancelled := True, cpc := CClose (gerr s)\<rparr>)
           else None)
      | CClose err \<Rightarrow>
          (if responseClosed s then Some (s\<lparr>status := Panicked CloseOfClosedChannel\<rparr>)
           else Some (s\<lparr>responseClosed := True, closers := closers s @ [ByCoordinator],
                        cpc := CReturn err\<rparr>))
      | CReturn err \<Rightarrow>
          (if length (runErrChan s) < length (Recipients s)
           then Some (s\<lparr>runErrChan := runErrChan s @ [err], cpc := CEnd\<rparr>)
           else None)
      | CEnd \<Rightarrow> None)"

subsection \<open>The task of one recipient\<close>

text \<open>
  Lines 121--128, inside the wrapper of \<^verbatim>\<open>errg.Go\<close>. The call of line 122 returns what
  the environment decides, given whether the context \<^verbatim>\<open>gctx\<close> it was handed is done.
  On an error the closure returns it: the group keeps the first error it is given and
  cancels its context, and the wait counter goes down. On success line 126 evaluates
  \<^verbatim>\<open>flattenResponse\<close> and sends the outcome on \<^verbatim>\<open>responses\<close>: a send on a closed
  channel panics, a send on a full one blocks. The wait counter is positive whenever
  a task returns (\<open>join_inv\<close> below), so the subtraction never truncates.
\<close>

definition send_returns :: "env \<Rightarrow> nat \<Rightarrow> state \<Rightarrow> state option" where
  "send_returns env i s =
     (if i < length (tasks s)
      then (case tasks s ! i of
              (recipient, TSend) \<Rightarrow>
                Some (s\<lparr>tasks := (tasks s)[i := (recipient, TGot (env i (gctxDone s)))]\<rparr>)
            | (recipient, _) \<Rightarrow> None)
      else None)"

definition task_step :: "nat \<Rightarrow> state \<Rightarrow> state option" where
  "task_step i s =
     (if i < length (tasks s)
      then (case tasks s ! i of
              (recipient, TGot (Inl err)) \<Rightarrow>
                Some (s\<lparr>tasks := (tasks s)[i := (recipient, TEnd (Some err))],
                        gerr := (case gerr s of None \<Rightarrow> Some err | Some first \<Rightarrow> Some first),
                        gctxCancelled := True, wg := wg s - 1\<rparr>)
            | (recipient, TGot (Inr resp)) \<Rightarrow>
                (case flattenResponse recipient resp of
                   Inl p \<Rightarrow> Some (s\<lparr>status := Panicked p\<rparr>)
                 | Inr outcome \<Rightarrow>
                     (if responseClosed s then Some (s\<lparr>status := Panicked SendOnClosedChannel\<rparr>)
                      else if length (responseChan s) < length (Recipients s)
                      then Some (s\<lparr>responseChan := responseChan s @ [outcome],
                                   tasks := (tasks s)[i := (recipient, TEnd None)],
                                   wg := wg s - 1\<rparr>)
                      else None))
            | (recipient, _) \<Rightarrow> None)
      else None)"

subsection \<open>Schedules\<close>

text \<open>
  An event names the goroutine that moves, and the branch where a select offers two. A
  process that has exited or panicked takes no step. A schedule is a list of events;
  \<open>exec\<close> runs it and is \<open>None\<close> when some event of it is not enabled.
\<close>

datatype event =
    Signal | MainStep | MainSelectDone | MainSelectSignal
  | RunStep | RunSelectDone | RunSelectErr | CoordStep
  | SendReturns nat | TaskStep nat

definition step :: "env \<Rightarrow> event \<Rightarrow> state \<Rightarrow> state option" where
  "step env e s =
     (if status s \<noteq> Running then None
      else (case e of
              Signal \<Rightarrow> signal_arrives s
            | MainStep \<Rightarrow> main_step s
            | MainSelectDone \<Rightarrow> main_select_done s
            | MainSelectSignal \<Rightarrow> main_select_signal s
            | RunStep \<Rightarrow> Run_step s
            | RunSelectDone \<Rightarrow> Run_select_done s
            | RunSelectErr \<Rightarrow> Run_select_err s
            | CoordStep \<Rightarrow> run_step s
            | SendReturns i \<Rightarrow> send_returns env i s
            | TaskStep i \<Rightarrow> task_step i s))"

fun exec :: "env \<Rightarrow> event list \<Rightarrow> state \<Rightarrow> state option" where
  "exec env [] s = Some s"
| "exec env (e # es) s = (case step env e s of None \<Rightarrow> None | Some s' \<Rightarrow> exec env es s')"

section \<open>Vocabulary of the properties\<close>

text \<open>A task has returned when its closure has handed its value to the group.\<close>

fun returned :: "task_pc \<Rightarrow> bool" where
  "returned (TEnd _) = True"
| "returned _ = False"

text \<open>The tasks started and not yet returned.\<close>

fun pending :: "(string \<times> task_pc) list \<Rightarrow> nat" where
  "pending [] = 0"
| "pending (t # ts) = (if returned (snd t) then 0 else 1) + pending ts"

text \<open>The coordinator has come back from \<^verbatim>\<open>errg.Wait()\<close>.\<close>

fun past_wait :: "run_pc \<Rightarrow> bool" where
  "past_wait (CClose _) = True"
| "past_wait (CReturn _) = True"
| "past_wait CEnd = True"
| "past_wait _ = False"

text \<open>Some task has returned an error.\<close>

definition some_failed :: "(string \<times> task_pc) list \<Rightarrow> bool" where
  "some_failed ts = (\<exists>t \<in> set ts. \<exists>e. snd t = TEnd (Some e))"

text \<open>
  The bookkeeping of the group: the wait counter is the number of pending tasks, the
  tasks started are the recipients the loop has visited, and the coordinator is past
  the wait only when nothing is pending.
\<close>

fun visited :: "run_pc \<Rightarrow> string list \<Rightarrow> string list \<Rightarrow> bool" where
  "visited CIdle started rs = (started = [])"
| "visited (CLoop rest) started rs = (started @ rest = rs)"
| "visited _ started rs = (started = rs)"

definition join_inv :: "state \<Rightarrow> bool" where
  "join_inv s \<longleftrightarrow>
     wg s = pending (tasks s)
     \<and> visited (cpc s) (map fst (tasks s)) (Recipients s)
     \<and> (past_wait (cpc s) \<longrightarrow> pending (tasks s) = 0)
     \<and> (mpc s = MStart \<longrightarrow> rpc s = RIdle)
     \<and> (rpc s = RIdle \<or> rpc s = REntry \<longrightarrow> cpc s = CIdle)
     \<and> (some_failed (tasks s) \<longrightarrow> gctxCancelled s)"

text \<open>
  What \<^verbatim>\<open>Run\<close> can hand to \<^verbatim>\<open>main\<close>: the configuration error, when there are no
  recipients, or the cancellation of the context.
\<close>

definition from_Run :: "state \<Rightarrow> error option \<Rightarrow> bool" where
  "from_Run s v \<longleftrightarrow> (v = Some NoRecipients \<and> Recipients s = []) \<or> v = Some Canceled"

definition report_inv :: "state \<Rightarrow> bool" where
  "report_inv s \<longleftrightarrow>
     \<not> runErrClosed s
     \<and> (\<forall>v. rpc s = RReturn v \<longrightarrow> from_Run s v)
     \<and> (\<forall>v \<in> set (mainErrChan s). from_Run s v)
     \<and> (\<forall>e. mpc s = MReport e \<longrightarrow> from_Run s (Some e))
     \<and> (\<forall>l \<in> set (stderr s). l = ReceivedSignal \<or> (\<exists>e. l = ErrorLine e \<and> from_Run s (Some e)))
     \<and> status s \<noteq> Exited 0"

text \<open>The state of \<^verbatim>\<open>main\<close> as long as no signal has arrived.\<close>

definition unsignalled :: "state \<Rightarrow> bool" where
  "unsignalled s \<longleftrightarrow>
     signalChan s = 0 \<and> \<not> nctxDone s \<and> (mpc s = MStart \<or> mpc s = MSelect)
     \<and> (\<forall>n. status s \<noteq> Exited n) \<and> stdout s = [] \<and> stderr s = []
     \<and> ByMain \<notin> set (closers s)"

text \<open>The states of a run whose recipient list is empty.\<close>

fun stderr_at :: "main_pc \<Rightarrow> stderr_line list" where
  "stderr_at MStart = []"
| "stderr_at MSelect = []"
| "stderr_at MSignalled = []"
| "stderr_at MExit = [ReceivedSignal, ErrorLine NoRecipients]"
| "stderr_at _ = [ReceivedSignal]"

fun before_cancel :: "main_pc \<Rightarrow> bool" where
  "before_cancel MStart = True"
| "before_cancel MSelect = True"
| "before_cancel MSignalled = True"
| "before_cancel MCancel = True"
| "before_cancel _ = False"

definition no_recipients_inv :: "state \<Rightarrow> bool" where
  "no_recipients_inv s \<longleftrightarrow>
     Recipients s = [] \<and> cpc s = CIdle \<and> tasks s = [] \<and> responseChan s = [] \<and> stdout s = []
     \<and> rpc s \<noteq> RSelect \<and> rpc s \<noteq> RRange
     \<and> (\<forall>v. rpc s = RReturn v \<longrightarrow> v = Some NoRecipients)
     \<and> (\<forall>v \<in> set (mainErrChan s). v = Some NoRecipients)
     \<and> (\<forall>resp. mpc s \<noteq> MPrint resp)
     \<and> (\<forall>e. mpc s = MReport e \<longrightarrow> e = NoRecipients)
     \<and> (status s = Running \<or> status s = Exited 1 \<and> mpc s = MExit)
     \<and> stderr s = stderr_at (mpc s)
     \<and> (before_cancel (mpc s) \<or> mpc s = MClose \<longrightarrow> \<not> responseClosed s)
     \<and> (before_cancel (mpc s) \<longrightarrow> \<not> nctxDone s)
     \<and> (mpc s = MDrain \<longrightarrow> responseClosed s)
     \<and> (rpc s = RIdle \<longrightarrow> mpc s = MStart)
     \<and> (rpc s = REnd \<longrightarrow> mainErrChan s \<noteq> [] \<or> (\<exists>e. mpc s = MReport e) \<or> mpc s = MExit)"

text \<open>The tasks of a run in which every send fails: none holds a response.\<close>

definition no_success :: "(string \<times> task_pc) list \<Rightarrow> bool" where
  "no_success ts = (\<forall>t \<in> set ts. (\<forall>resp. snd t \<noteq> TGot (Inr resp)) \<and> snd t \<noteq> TEnd None)"

definition all_fail_inv :: "state \<Rightarrow> bool" where
  "all_fail_inv s \<longleftrightarrow>
     no_success (tasks s) \<and> responseChan s = [] \<and> stdout s = [] \<and> (\<forall>resp. mpc s \<noteq> MPrint resp)"

text \<open>
  The traffic on \<^verbatim>\<open>Run\<close>'s \<^verbatim>\<open>errChan\<close>: the coordinator sends one value when it
  ends, the select of line 101 takes it, and the range of line 105 finds nothing.
\<close>

definition range_inv :: "state \<Rightarrow> bool" where
  "range_inv s \<longleftrightarrow>
     allErrors s = [] \<and> length (runErrChan s) \<le> 1
     \<and> (cpc s \<noteq> CEnd \<longrightarrow> runErrChan s = [] \<and> rpc s \<noteq> RRange)
     \<and> (rpc s = RRange \<longrightarrow> runErrChan s = [])
     \<and> (mpc s = MStart \<longrightarrow> rpc s = RIdle)
     \<and> (rpc s = RIdle \<or> rpc s = REntry \<longrightarrow> cpc s = CIdle)"

text \<open>
  The tasks that have returned nil, and the outcomes written so far: those still in
  the channel, the one that \<^verbatim>\<open>main\<close> has taken and is about to print, and those that
  \<^verbatim>\<open>main\<close> has already printed.
\<close>

fun succeeded :: "(string \<times> task_pc) list \<Rightarrow> nat" where
  "succeeded [] = 0"
| "succeeded (t # ts) = (if snd t = TEnd None then 1 else 0) + succeeded ts"

fun in_hand :: "main_pc \<Rightarrow> nat" where
  "in_hand (MPrint _) = 1"
| "in_hand _ = 0"

definition sink_inv :: "state \<Rightarrow> bool" where
  "sink_inv s \<longleftrightarrow>
     length (responseChan s) + in_hand (mpc s) + length (stdout s) = succeeded (tasks s)"

text \<open>
  A run that has not panicked: what a task holds after line 122 is the result the
  environment fixed for it, and the channel of outcomes is closed only once the
  coordinator has run its deferred close.
\<close>

definition results_from :: "env \<Rightarrow> (string \<times> task_pc) list \<Rightarrow> bool" where
  "results_from env ts =
     (\<forall>i < length ts. \<forall>x. snd (ts ! i) = TGot x \<longrightarrow> (\<exists>done. x = env i done))"

definition calm_inv :: "env \<Rightarrow> state \<Rightarrow> bool" where
  "calm_inv env s \<longleftrightarrow>
     status s = Running \<and> results_from env (tasks s)
     \<and> (responseClosed s \<longrightarrow> (\<exists>v. cpc s = CReturn v) \<or> cpc s = CEnd)"

section \<open>Scenarios\<close>

text \<open>A response of the remote service with one message identifier.\<close>

definition response_with :: "int \<Rightarrow> string \<Rightarrow> whttp_Response" where
  "response_with code mid =
     \<lparr>wStatusCode = code, wHeaders = [],
      wMessage = Some \<lparr>Product = ''whatsapp'', Contacts = [], Messages = [Some \<lparr>ID = mid\<rparr>]\<rparr>\<rparr>"

text \<open>Both sends succeed with status 200 and the identifiers \<^verbatim>\<open>wamid.A\<close>, \<^verbatim>\<open>wamid.B\<close>.\<close>

definition both_succeed :: env where
  "both_succeed i done =
     (if i = 0 then Inr (Some (response_with 200 ''wamid.A''))
      else Inr (Some (response_with 200 ''wamid.B'')))"

text \<open>Every send fails, each with an error of its own.\<close>

definition all_fail :: env where
  "all_fail i done = Inl (SendFailed (replicate (Suc i) (CHR ''x'')))"

text \<open>The first send succeeds, every other one fails.\<close>

definition first_succeeds :: env where
  "first_succeeds i done =
     (if i = 0 then Inr (Some (response_with 200 ''wamid.A''))
      else Inl (SendFailed (replicate i (CHR ''x''))))"

text \<open>The first send fails, every other one succeeds.\<close>

definition first_fails :: env where
  "first_fails i done =
     (if i = 0 then Inl (SendFailed ''500'')
      else Inr (Some (response_with 200 ''wamid.B'')))"

text \<open>
  The first send fails; every other one succeeds when its context is still live and
  is given up with an error when its context is done, as the transport does with a
  request whose context is cancelled.
\<close>

definition first_fails_others_observe :: env where
  "first_fails_others_observe i done =
     (if i = 0 then Inl (SendFailed ''500'')
      else if done then Inl (SendFailed ''context canceled'')
      else Inr (Some (response_with 200 ''wamid.B'')))"

text \<open>Every send succeeds when its context is still live and is given up with an
  error when its context is done.\<close>

definition succeed_unless_cancelled :: env where
  "succeed_unless_cancelled i done =
     (if done then Inl (SendFailed ''context canceled'')
      else Inr (Some (response_with 200 ''wamid.A'')))"

text \<open>A response whose list of messages holds one nil pointer, and the send that
  returns it with a nil error.\<close>

definition nil_first_entry :: whttp_Response where
  "nil_first_entry =
     \<lparr>wStatusCode = 200, wHeaders = [],
      wMessage = Some \<lparr>Product = ''whatsapp'', Contacts = [], Messages = [None]\<rparr>\<rparr>"

definition nil_entry_response :: env where
  "nil_entry_response i done = Inr (Some nil_first_entry)"

text \<open>The send reports success with a nil response pointer.\<close>

definition nil_response :: env where
  "nil_response i done = Inr None"

text \<open>
  Schedules. In \<open>all_tasks_return\<close> two recipients are served to the end without a
  signal: both tasks return, the coordinator closes the channel and returns, and
  \<^verbatim>\<open>Run\<close> takes the coordinator's value in its select. In \<open>first_task_returns\<close> the
  first of two tasks has returned while the second is still inside its send.
\<close>

definition all_tasks_return :: "event list" where
  "all_tasks_return =
     [MainStep, RunStep, CoordStep, CoordStep, CoordStep, SendReturns 0, SendReturns 1,
      TaskStep 0, TaskStep 1, CoordStep, CoordStep, CoordStep, RunSelectErr]"

definition first_task_returns :: "event list" where
  "first_task_returns = [MainStep, RunStep, CoordStep, CoordStep, SendReturns 0, TaskStep 0]"

text \<open>
  Two recipients, both tasks in their sends. In \<open>failure_first\<close> the first task
  returns its value to the group before the second send returns; in \<open>failure_last\<close>
  the second task has written its outcome before the first send returns.
\<close>

definition failure_first :: "event list" where
  "failure_first = first_task_returns @ [SendReturns 1, TaskStep 1]"

definition failure_last :: "event list" where
  "failure_last =
     [MainStep, RunStep, CoordStep, CoordStep, SendReturns 1, TaskStep 1, SendReturns 0,
      TaskStep 0]"

text \<open>
  One recipient and an interrupt while its send is in flight: \<open>interrupt_in_flight\<close>
  takes \<^verbatim>\<open>main\<close> through the signal branch of its select (receive, print, cancel)
  and through line 202;
  \<open>interrupt_then_return\<close> then lets the send return and the task take its next
  step; \<open>interrupt_then_join\<close> lets the coordinator go on after that to its deferred
  close; \<open>interrupt_then_exit\<close> instead lets \<^verbatim>\<open>main\<close> and \<^verbatim>\<open>Run\<close> finish first.
\<close>

definition interrupt_in_flight :: "event list" where
  "interrupt_in_flight =
     [MainStep, RunStep, CoordStep, Signal, MainSelectSignal, MainStep, MainStep, MainStep]"

definition interrupt_then_return :: "event list" where
  "interrupt_then_return = interrupt_in_flight @ [SendReturns 0, TaskStep 0]"

definition interrupt_then_join :: "event list" where
  "interrupt_then_join = interrupt_then_return @ [CoordStep, CoordStep, CoordStep]"

definition interrupt_then_exit :: "event list" where
  "interrupt_then_exit =
     interrupt_in_flight @ [MainStep, RunSelectDone, RunStep, MainStep, MainStep, MainStep]"

text \<open>
  As \<open>interrupt_then_exit\<close> up to the print of line 209; then the send returns and
  the task takes its next step before \<^verbatim>\<open>main\<close> reaches line 210.
\<close>

definition interrupt_report_then_return :: "event list" where
  "interrupt_report_then_return =
     interrupt_in_flight
     @ [MainStep, RunSelectDone, RunStep, MainStep, MainStep, SendReturns 0, TaskStep 0]"

text \<open>An interrupt after the run of \<open>all_tasks_return\<close>, and \<^verbatim>\<open>main\<close> through the
  print, the cancel and line 202.\<close>

definition interrupt_after_return :: "event list" where
  "interrupt_after_return =
     all_tasks_return @ [Signal, MainSelectSignal, MainStep, MainStep, MainStep]"


text \<open>Three recipients served to the end without a signal.\<close>

definition three_tasks_return :: "event list" where
  "three_tasks_return =
     [MainStep, RunStep, CoordStep, CoordStep, CoordStep, CoordStep,
      SendReturns 0, SendReturns 1, SendReturns 2, TaskStep 0, TaskStep 1, TaskStep 2,
      CoordStep, CoordStep, CoordStep, RunSelectErr]"

section \<open>Basic facts\<close>

lemmas step_defs = main_step_def main_select_done_def main_select_signal_def
  signal_arrives_def Run_step_def Run_select_done_def Run_select_err_def run_step_def
  send_returns_def task_step_def

lemmas scenario_defs = init_def step_def step_defs flattenResponse_def messageID_of_def
  response_with_def

lemma Split_nonempty: "Split s sep \<noteq> []"
  by (induction s) (auto split: list.splits)

text \<open>A property that every enabled step of the events of a schedule keeps holds at
  the end of the schedule.\<close>

lemma exec_invariant:
  assumes pres: "\<And>e s s'. Q e \<Longrightarrow> P s \<Longrightarrow> step env e s = Some s' \<Longrightarrow> P s'"
  shows "\<forall>e \<in> set tr. Q e \<Longrightarrow> P s \<Longrightarrow> exec env tr s = Some s' \<Longrightarrow> P s'"
proof (induction tr arbitrary: s)
  case Nil
  then show ?case by simp
next
  case (Cons e es)
  from Cons.prems(3) obtain s1 where e: "step env e s = Some s1" and es: "exec env es s1 = Some s'"
    by (auto split: option.splits)
  from Cons.prems(1) have "Q e" by simp
  then have "P s1" using Cons.prems(2) e by (rule pres)
  moreover from Cons.prems(1) have "\<forall>e \<in> set es. Q e" by simp
  ultimately show ?case using es by (simp add: Cons.IH)
qed

lemma Recipients_step: "step env e s = Some s' \<Longrightarrow> Recipients s' = Recipients s"
  unfolding step_def step_defs
  by (cases e)
     (auto split: if_splits main_pc.splits Run_pc.splits run_pc.splits list.splits
        option.splits prod.splits task_pc.splits sum.splits)

lemma Recipients_exec: "exec env tr (init rs) = Some s \<Longrightarrow> Recipients s = rs"
proof -
  assume e: "exec env tr (init rs) = Some s"
  have "\<forall>e \<in> set tr. True" by simp
  moreover have "Recipients (init rs) = rs" by (simp add: init_def)
  ultimately show ?thesis
    using e by (rule exec_invariant [where P = "\<lambda>s. Recipients s = rs", rotated]) (simp add: Recipients_step)
qed

subsection \<open>Counting the pending tasks\<close>

lemma pending_append: "pending (ts @ us) = pending ts + pending us"
  by (induction ts) auto

lemma pending_update_same:
  "i < length ts \<Longrightarrow> returned (snd (ts ! i)) = returned (snd t) \<Longrightarrow>
     pending (ts[i := t]) = pending ts"
  by (induction ts arbitrary: i) (auto split: nat.splits)

lemma pending_update_Suc:
  "i < length ts \<Longrightarrow> \<not> returned (snd (ts ! i)) \<Longrightarrow> returned (snd t) \<Longrightarrow>
     Suc (pending (ts[i := t])) = pending ts"
  by (induction ts arbitrary: i) (auto split: nat.splits)

lemma pending_update_end:
  "i < length ts \<Longrightarrow> \<not> returned (snd (ts ! i)) \<Longrightarrow> returned (snd t) \<Longrightarrow>
     pending (ts[i := t]) = pending ts - Suc 0"
  using pending_update_Suc [of i ts t] by simp

lemma pending_zero_returned: "pending ts = 0 \<Longrightarrow> t \<in> set ts \<Longrightarrow> returned (snd t)"
  by (induction ts) (auto split: if_splits)

lemma map_fst_update:
  "i < length ts \<Longrightarrow> fst (ts ! i) = fst t \<Longrightarrow> map fst (ts[i := t]) = map fst ts"
  by (simp add: map_update list_update_same_conv)

lemma some_failed_update:
  "some_failed (ts[i := (r, x)]) \<Longrightarrow> \<forall>e. x \<noteq> TEnd (Some e) \<Longrightarrow> some_failed ts"
  unfolding some_failed_def by (auto dest!: subsetD [OF set_update_subset_insert])

lemma some_failed_append: "some_failed (ts @ [(r, TSend)]) = some_failed ts"
  unfolding some_failed_def by auto

subsection \<open>The bookkeeping of the group is an invariant\<close>

lemma join_main: "join_inv s \<Longrightarrow> main_step s = Some s' \<Longrightarrow> join_inv s'"
  unfolding main_step_def join_inv_def
  by (clarsimp split: if_splits main_pc.splits list.splits option.splits)

lemma join_main_select_done: "join_inv s \<Longrightarrow> main_select_done s = Some s' \<Longrightarrow> join_inv s'"
  unfolding main_select_done_def join_inv_def by (clarsimp split: if_splits)

lemma join_main_select_signal: "join_inv s \<Longrightarrow> main_select_signal s = Some s' \<Longrightarrow> join_inv s'"
  unfolding main_select_signal_def join_inv_def by (clarsimp split: if_splits)

lemma join_signal: "join_inv s \<Longrightarrow> signal_arrives s = Some s' \<Longrightarrow> join_inv s'"
  unfolding signal_arrives_def join_inv_def by clarsimp

lemma join_Run: "join_inv s \<Longrightarrow> Run_step s = Some s' \<Longrightarrow> join_inv s'"
  unfolding Run_step_def join_inv_def
  by (clarsimp split: if_splits Run_pc.splits list.splits)

lemma join_Run_select_done: "join_inv s \<Longrightarrow> Run_select_done s = Some s' \<Longrightarrow> join_inv s'"
  unfolding Run_select_done_def join_inv_def by (clarsimp split: if_splits)

lemma join_Run_select_err: "join_inv s \<Longrightarrow> Run_select_err s = Some s' \<Longrightarrow> join_inv s'"
  unfolding Run_select_err_def join_inv_def by (clarsimp split: if_splits list.splits)

lemma join_run: "join_inv s \<Longrightarrow> run_step s = Some s' \<Longrightarrow> join_inv s'"
  unfolding run_step_def join_inv_def
  by (clarsimp simp: pending_append some_failed_append split: if_splits list.splits run_pc.splits)

lemma join_send: "join_inv s \<Longrightarrow> send_returns env i s = Some s' \<Longrightarrow> join_inv s'"
  unfolding send_returns_def join_inv_def
  by (clarsimp simp: pending_update_same map_fst_update split: if_splits prod.splits task_pc.splits)
     (auto dest: some_failed_update)

lemma join_task: "join_inv s \<Longrightarrow> task_step i s = Some s' \<Longrightarrow> join_inv s'"
  unfolding task_step_def join_inv_def
  by (clarsimp simp: map_fst_update pending_update_end
        split: if_splits prod.splits task_pc.splits sum.splits)
     (auto dest: some_failed_update)

lemma join_step: "join_inv s \<Longrightarrow> step env e s = Some s' \<Longrightarrow> join_inv s'"
  unfolding step_def
  by (cases e)
     (simp_all split: if_splits,
      (erule (1) join_main join_main_select_done join_main_select_signal join_signal join_Run
         join_Run_select_done join_Run_select_err join_run join_send join_task)+)

lemma join_init: "join_inv (init rs)"
  by (simp add: join_inv_def init_def some_failed_def)

lemma join_exec: "exec env tr (init rs) = Some s \<Longrightarrow> join_inv s"
proof -
  assume e: "exec env tr (init rs) = Some s"
  have "\<forall>e \<in> set tr. True" by simp
  then show ?thesis
    using join_init e by (rule exec_invariant [where P = join_inv, rotated]) (rule join_step)
qed

subsection \<open>What \<^verbatim>\<open>Run\<close> hands to \<^verbatim>\<open>main\<close> is an invariant\<close>

lemma report_main: "report_inv s \<Longrightarrow> main_step s = Some s' \<Longrightarrow> report_inv s'"
  unfolding main_step_def report_inv_def from_Run_def
  by (clarsimp split: if_splits main_pc.splits list.splits option.splits)

lemma report_others:
  "report_inv s \<Longrightarrow> main_select_done s = Some s' \<Longrightarrow> report_inv s'"
  "report_inv s \<Longrightarrow> main_select_signal s = Some s' \<Longrightarrow> report_inv s'"
  "report_inv s \<Longrightarrow> signal_arrives s = Some s' \<Longrightarrow> report_inv s'"
  "report_inv s \<Longrightarrow> Run_select_done s = Some s' \<Longrightarrow> report_inv s'"
  "report_inv s \<Longrightarrow> Run_select_err s = Some s' \<Longrightarrow> report_inv s'"
  "report_inv s \<Longrightarrow> run_step s = Some s' \<Longrightarrow> report_inv s'"
  "report_inv s \<Longrightarrow> send_returns env i s = Some s' \<Longrightarrow> report_inv s'"
  "report_inv s \<Longrightarrow> task_step i s = Some s' \<Longrightarrow> report_inv s'"
  unfolding step_defs report_inv_def from_Run_def
  by (clarsimp split: if_splits run_pc.splits list.splits option.splits prod.splits
        task_pc.splits sum.splits)+

lemma report_Run: "report_inv s \<Longrightarrow> Run_step s = Some s' \<Longrightarrow> report_inv s'"
  unfolding Run_step_def report_inv_def from_Run_def
  by (clarsimp split: if_splits Run_pc.splits list.splits)

lemma report_step: "report_inv s \<Longrightarrow> step env e s = Some s' \<Longrightarrow> report_inv s'"
  unfolding step_def
  by (cases e)
     (simp_all split: if_splits, (erule (1) report_main report_others report_Run)+)

lemma report_init: "report_inv (init rs)"
  by (simp add: report_inv_def init_def)

lemma report_exec: "exec env tr (init rs) = Some s \<Longrightarrow> report_inv s"
proof -
  assume e: "exec env tr (init rs) = Some s"
  have "\<forall>e \<in> set tr. True" by simp
  then show ?thesis
    using report_init e by (rule exec_invariant [where P = report_inv, rotated]) (rule report_step)
qed

subsection \<open>Without a signal \<^verbatim>\<open>main\<close> stays in its select\<close>

lemma unsignalled_step:
  "e \<noteq> Signal \<Longrightarrow> unsignalled s \<Longrightarrow> step env e s = Some s' \<Longrightarrow> unsignalled s'"
  unfolding step_def step_defs unsignalled_def
  by (cases e)
     (clarsimp split: if_splits main_pc.splits Run_pc.splits run_pc.splits list.splits
        option.splits prod.splits task_pc.splits sum.splits)+

lemma unsignalled_init: "unsignalled (init rs)"
  by (simp add: unsignalled_def init_def)

lemma unsignalled_exec:
  "Signal \<notin> set tr \<Longrightarrow> exec env tr (init rs) = Some s \<Longrightarrow> unsignalled s"
proof -
  assume n: "Signal \<notin> set tr" and e: "exec env tr (init rs) = Some s"
  from n have "\<forall>e \<in> set tr. e \<noteq> Signal" by auto
  then show ?thesis
    using unsignalled_init e
    by (rule exec_invariant [where P = unsignalled, rotated]) (rule unsignalled_step)
qed

subsection \<open>A run with no recipients\<close>

lemma no_recipients_main: "no_recipients_inv s \<Longrightarrow> status s = Running \<Longrightarrow> main_step s = Some s' \<Longrightarrow> no_recipients_inv s'"
  unfolding main_step_def no_recipients_inv_def
  by (clarsimp split: if_splits main_pc.splits list.splits option.splits)

lemma no_recipients_others:
  "no_recipients_inv s \<Longrightarrow> main_select_done s = Some s' \<Longrightarrow> no_recipients_inv s'"
  "no_recipients_inv s \<Longrightarrow> main_select_signal s = Some s' \<Longrightarrow> no_recipients_inv s'"
  "no_recipients_inv s \<Longrightarrow> signal_arrives s = Some s' \<Longrightarrow> no_recipients_inv s'"
  "no_recipients_inv s \<Longrightarrow> Run_select_done s = Some s' \<Longrightarrow> no_recipients_inv s'"
  "no_recipients_inv s \<Longrightarrow> Run_select_err s = Some s' \<Longrightarrow> no_recipients_inv s'"
  "no_recipients_inv s \<Longrightarrow> run_step s = Some s' \<Longrightarrow> no_recipients_inv s'"
  "no_recipients_inv s \<Longrightarrow> send_returns env i s = Some s' \<Longrightarrow> no_recipients_inv s'"
  "no_recipients_inv s \<Longrightarrow> task_step i s = Some s' \<Longrightarrow> no_recipients_inv s'"
  unfolding step_defs no_recipients_inv_def
  by (clarsimp split: if_splits list.splits)+

lemma no_recipients_Run: "no_recipients_inv s \<Longrightarrow> Run_step s = Some s' \<Longrightarrow> no_recipients_inv s'"
  unfolding Run_step_def no_recipients_inv_def
  by (clarsimp split: if_splits Run_pc.splits list.splits)

lemma no_recipients_step: "no_recipients_inv s \<Longrightarrow> step env e s = Some s' \<Longrightarrow> no_recipients_inv s'"
  unfolding step_def
  by (cases e)
     (simp_all split: if_splits,
      (erule (2) no_recipients_main | erule (1) no_recipients_others no_recipients_Run)+)

lemma no_recipients_init: "no_recipients_inv (init [])"
  by (simp add: no_recipients_inv_def init_def)

lemma no_recipients_exec: "exec env tr (init []) = Some s \<Longrightarrow> no_recipients_inv s"
proof -
  assume e: "exec env tr (init []) = Some s"
  have "\<forall>e \<in> set tr. True" by simp
  then show ?thesis
    using no_recipients_init e
    by (rule exec_invariant [where P = no_recipients_inv, rotated]) (rule no_recipients_step)
qed

subsection \<open>A run in which every send fails\<close>

lemma no_success_update:
  "no_success ts \<Longrightarrow> (\<forall>resp. x \<noteq> TGot (Inr resp)) \<Longrightarrow> x \<noteq> TEnd None \<Longrightarrow> no_success (ts[i := (r, x)])"
  unfolding no_success_def by (auto dest!: subsetD [OF set_update_subset_insert])

lemma no_success_nth:
  "no_success ts \<Longrightarrow> i < length ts \<Longrightarrow> ts ! i = (r, TGot (Inr resp)) \<Longrightarrow> False"
  unfolding no_success_def by (metis nth_mem snd_conv)

lemma no_success_append: "no_success (ts @ [(r, TSend)]) = no_success ts"
  unfolding no_success_def by auto

lemma all_fail_task: "all_fail_inv s \<Longrightarrow> task_step i s = Some s' \<Longrightarrow> all_fail_inv s'"
  unfolding task_step_def all_fail_inv_def
  by (clarsimp simp: no_success_update split: if_splits prod.splits task_pc.splits sum.splits)
     (blast dest: no_success_nth)

lemma all_fail_send: "all_fail_inv s \<Longrightarrow> send_returns all_fail i s = Some s' \<Longrightarrow> all_fail_inv s'"
  unfolding send_returns_def all_fail_inv_def
  by (clarsimp simp: all_fail_def no_success_update split: if_splits prod.splits task_pc.splits)

lemma all_fail_others:
  "all_fail_inv s \<Longrightarrow> main_step s = Some s' \<Longrightarrow> all_fail_inv s'"
  "all_fail_inv s \<Longrightarrow> main_select_done s = Some s' \<Longrightarrow> all_fail_inv s'"
  "all_fail_inv s \<Longrightarrow> main_select_signal s = Some s' \<Longrightarrow> all_fail_inv s'"
  "all_fail_inv s \<Longrightarrow> signal_arrives s = Some s' \<Longrightarrow> all_fail_inv s'"
  "all_fail_inv s \<Longrightarrow> Run_step s = Some s' \<Longrightarrow> all_fail_inv s'"
  "all_fail_inv s \<Longrightarrow> Run_select_done s = Some s' \<Longrightarrow> all_fail_inv s'"
  "all_fail_inv s \<Longrightarrow> Run_select_err s = Some s' \<Longrightarrow> all_fail_inv s'"
  "all_fail_inv s \<Longrightarrow> run_step s = Some s' \<Longrightarrow> all_fail_inv s'"
  unfolding step_defs all_fail_inv_def
  by (clarsimp simp: no_success_append
        split: if_splits main_pc.splits Run_pc.splits run_pc.splits list.splits option.splits)+

lemma all_fail_step: "all_fail_inv s \<Longrightarrow> step all_fail e s = Some s' \<Longrightarrow> all_fail_inv s'"
  unfolding step_def
  by (cases e)
     (simp_all split: if_splits, (erule (1) all_fail_task all_fail_send all_fail_others)+)

lemma all_fail_init: "all_fail_inv (init rs)"
  by (simp add: all_fail_inv_def init_def no_success_def)


lemma all_fail_exec: "exec all_fail tr (init rs) = Some s \<Longrightarrow> all_fail_inv s"
proof -
  assume e: "exec all_fail tr (init rs) = Some s"
  have "\<forall>e \<in> set tr. True" by simp
  then show ?thesis
    using all_fail_init e
    by (rule exec_invariant [where P = all_fail_inv, rotated]) (rule all_fail_step)
qed

subsection \<open>The range of line 105 never receives\<close>

lemma range_step: "range_inv s \<Longrightarrow> step env e s = Some s' \<Longrightarrow> range_inv s'"
  unfolding step_def step_defs range_inv_def
  by (cases e)
     (clarsimp split: if_splits main_pc.splits Run_pc.splits run_pc.splits list.splits
        option.splits prod.splits task_pc.splits sum.splits)+

lemma range_init: "range_inv (init rs)"
  by (simp add: range_inv_def init_def)

lemma range_exec: "exec env tr (init rs) = Some s \<Longrightarrow> range_inv s"
proof -
  assume e: "exec env tr (init rs) = Some s"
  have "\<forall>e \<in> set tr. True" by simp
  then show ?thesis
    using range_init e by (rule exec_invariant [where P = range_inv, rotated]) (rule range_step)
qed

subsection \<open>One write for each task that returns nil\<close>

lemma succeeded_append: "succeeded (ts @ us) = succeeded ts + succeeded us"
  by (induction ts) auto

lemma succeeded_update_same:
  "i < length ts \<Longrightarrow> snd (ts ! i) \<noteq> TEnd None \<Longrightarrow> snd t \<noteq> TEnd None \<Longrightarrow>
     succeeded (ts[i := t]) = succeeded ts"
  by (induction ts arbitrary: i) (auto split: nat.splits)

lemma succeeded_update_nil:
  "i < length ts \<Longrightarrow> snd (ts ! i) \<noteq> TEnd None \<Longrightarrow>
     succeeded (ts[i := (r, TEnd None)]) = Suc (succeeded ts)"
  by (induction ts arbitrary: i) (auto split: nat.splits)

lemma sink_step: "sink_inv s \<Longrightarrow> step env e s = Some s' \<Longrightarrow> sink_inv s'"
  unfolding step_def step_defs sink_inv_def
  by (cases e)
     (clarsimp simp: succeeded_append succeeded_update_same succeeded_update_nil
        split: if_splits main_pc.splits Run_pc.splits run_pc.splits list.splits
        option.splits prod.splits task_pc.splits sum.splits)+

lemma sink_init: "sink_inv (init rs)"
  by (simp add: sink_inv_def init_def)

lemma outcomes_written:
  "exec env tr (init rs) = Some s \<Longrightarrow>
     length (responseChan s) + in_hand (mpc s) + length (stdout s) = succeeded (tasks s)"
proof -
  assume e: "exec env tr (init rs) = Some s"
  have "\<forall>e \<in> set tr. True" by simp
  then have "sink_inv s"
    using sink_init e by (rule exec_invariant [where P = sink_inv, rotated]) (rule sink_step)
  then show ?thesis by (simp add: sink_inv_def)
qed

subsection \<open>Without a signal the two successful sends never panic\<close>

lemma results_from_append: "results_from env (ts @ [(r, TSend)]) = results_from env ts"
  unfolding results_from_def by (auto simp: nth_append less_Suc_eq)

lemma results_from_update:
  "results_from env ts \<Longrightarrow> (\<forall>x. t = TGot x \<longrightarrow> (\<exists>done. x = env i done)) \<Longrightarrow>
     results_from env (ts[i := (r, t)])"
  unfolding results_from_def
proof (intro allI impI)
  fix j x
  assume a: "\<forall>i < length ts. \<forall>x. snd (ts ! i) = TGot x \<longrightarrow> (\<exists>done. x = env i done)"
    and b: "\<forall>x. t = TGot x \<longrightarrow> (\<exists>done. x = env i done)"
    and j: "j < length (ts[i := (r, t)])" and g: "snd (ts[i := (r, t)] ! j) = TGot x"
  show "\<exists>done. x = env j done"
  proof (cases "j = i")
    case True
    with j g b show ?thesis by simp
  next
    case False
    with j g a show ?thesis by simp
  qed
qed

lemma results_from_got:
  "results_from env ts \<Longrightarrow> results_from env (ts[i := (r, TGot (env i d))])"
  by (rule results_from_update) auto

lemma results_from_end:
  "results_from env ts \<Longrightarrow> results_from env (ts[i := (r, TEnd v)])"
  by (rule results_from_update) auto

lemma results_from_nth:
  "results_from env ts \<Longrightarrow> i < length ts \<Longrightarrow> ts ! i = (r, TGot x) \<Longrightarrow> \<exists>done. x = env i done"
  unfolding results_from_def by auto

lemma flattenResponse_both_succeed:
  "both_succeed i done = Inr resp \<Longrightarrow> \<exists>outcome. flattenResponse r resp = Inr outcome"
  by (auto simp: both_succeed_def flattenResponse_def messageID_of_def response_with_def
        split: if_splits)

lemma pending_pos: "i < length ts \<Longrightarrow> \<not> returned (snd (ts ! i)) \<Longrightarrow> 0 < pending ts"
  by (induction ts arbitrary: i) (auto simp: nth_Cons split: nat.splits)

lemma calm_main:
  "unsignalled s \<Longrightarrow> calm_inv env s \<Longrightarrow> main_step s = Some s' \<Longrightarrow> calm_inv env s'"
  unfolding main_step_def calm_inv_def unsignalled_def
  by (clarsimp split: if_splits main_pc.splits list.splits option.splits)

lemma calm_others:
  "calm_inv env s \<Longrightarrow> main_select_done s = Some s' \<Longrightarrow> calm_inv env s'"
  "calm_inv env s \<Longrightarrow> main_select_signal s = Some s' \<Longrightarrow> calm_inv env s'"
  "calm_inv env s \<Longrightarrow> Run_select_done s = Some s' \<Longrightarrow> calm_inv env s'"
  "calm_inv env s \<Longrightarrow> Run_select_err s = Some s' \<Longrightarrow> calm_inv env s'"
  "calm_inv env s \<Longrightarrow> send_returns env i s = Some s' \<Longrightarrow> calm_inv env s'"
  unfolding step_defs calm_inv_def
  by (clarsimp simp: results_from_got results_from_end split: if_splits list.splits prod.splits task_pc.splits)+

lemma calm_Run:
  "join_inv s \<Longrightarrow> calm_inv env s \<Longrightarrow> Run_step s = Some s' \<Longrightarrow> calm_inv env s'"
  unfolding Run_step_def calm_inv_def join_inv_def
  by (clarsimp split: if_splits Run_pc.splits list.splits)

lemma calm_run: "calm_inv env s \<Longrightarrow> run_step s = Some s' \<Longrightarrow> calm_inv env s'"
  unfolding run_step_def calm_inv_def
  by (clarsimp simp: results_from_append split: if_splits list.splits run_pc.splits)

lemma calm_task:
  assumes j: "join_inv s" and c: "calm_inv both_succeed s" and t: "task_step i s = Some s'"
  shows "calm_inv both_succeed s'"
proof -
  from t obtain r x where i: "i < length (tasks s)" and n: "tasks s ! i = (r, TGot x)"
    unfolding task_step_def by (auto split: if_splits prod.splits task_pc.splits)
  from c i n obtain d where x: "x = both_succeed i d"
    unfolding calm_inv_def by (blast dest: results_from_nth)
  then obtain resp where resp: "x = Inr resp" by (cases "i = 0") (auto simp: both_succeed_def)
  with x obtain outcome where f: "flattenResponse r resp = Inr outcome"
    using flattenResponse_both_succeed [of i d resp r] by auto
  from i n have "0 < pending (tasks s)" by (auto intro: pending_pos)
  with j have "\<not> past_wait (cpc s)" by (auto simp: join_inv_def)
  with c have o: "\<not> responseClosed s" by (auto simp: calm_inv_def)
  from t i n resp f o c show ?thesis
    unfolding task_step_def calm_inv_def
    by (clarsimp simp: results_from_got results_from_end split: if_splits)
qed

lemma calm_step:
  assumes "e \<noteq> Signal" and "unsignalled s \<and> join_inv s \<and> calm_inv both_succeed s"
    and "step both_succeed e s = Some s'"
  shows "unsignalled s' \<and> join_inv s' \<and> calm_inv both_succeed s'"
proof -
  from assms have u: "unsignalled s'" by (blast intro: unsignalled_step)
  from assms have j: "join_inv s'" by (blast intro: join_step)
  from assms have "calm_inv both_succeed s'"
    unfolding step_def
    by (cases e)
       (auto split: if_splits
          intro: calm_main calm_others calm_Run calm_run calm_task)
  with u j show ?thesis by blast
qed

lemma calm_exec:
  assumes "Signal \<notin> set tr" and "exec both_succeed tr (init rs) = Some s"
  shows "calm_inv both_succeed s"
proof -
  from assms(1) have "\<forall>e \<in> set tr. e \<noteq> Signal" by auto
  moreover have "unsignalled (init rs) \<and> join_inv (init rs) \<and> calm_inv both_succeed (init rs)"
    by (simp add: unsignalled_init join_init) (simp add: calm_inv_def init_def results_from_def)
  ultimately have "unsignalled s \<and> join_inv s \<and> calm_inv both_succeed s"
    using assms(2)
    by (rule exec_invariant
          [where P = "\<lambda>s. unsignalled s \<and> join_inv s \<and> calm_inv both_succeed s", rotated])
       (rule calm_step)
  then show ?thesis by blast
qed

section \<open>The outcome of a successful send\<close>

text \<open>
  \<^bold>\<open>C8.\<close> For a successful send whose response is not nil: when the first entry of
  \<^verbatim>\<open>Messages\<close>, if there is one, is a message, the outcome carries the recipient's
  identifier, the status code of the response and the message identifier, which is the
  empty string when the response has no message or an empty list of messages and the
  identifier of the first message otherwise; when the first entry of \<^verbatim>\<open>Messages\<close> is a
  nil pointer, line 44 dereferences it and \<^verbatim>\<open>flattenResponse\<close> panics.
\<close>

theorem flattenResponse_outcome:
  "((\<forall>m rest. wMessage r = Some m \<longrightarrow> Messages m \<noteq> None # rest) \<longrightarrow>
      (\<exists>outcome. flattenResponse receiver (Some r) = Inr outcome
           \<and> Receiver outcome = receiver
           \<and> StatusCode outcome = wStatusCode r
           \<and> ((wMessage r = None \<or> (\<exists>m. wMessage r = Some m \<and> Messages m = []))
                \<longrightarrow> MessageID outcome = '''')
           \<and> (\<forall>m first rest. wMessage r = Some m \<and> Messages m = Some first # rest
                \<longrightarrow> MessageID outcome = ID first)))
   \<and> ((\<exists>m rest. wMessage r = Some m \<and> Messages m = None # rest) \<longrightarrow>
        flattenResponse receiver (Some r) = Inl NilDereference)"
proof (cases "wMessage r")
  case None
  then show ?thesis by (simp add: flattenResponse_def messageID_of_def)
next
  case (Some m)
  show ?thesis
  proof (cases "Messages m")
    case Nil
    with Some show ?thesis by (simp add: flattenResponse_def messageID_of_def)
  next
    case (Cons first rest)
    with Some show ?thesis
      by (cases first) (simp_all add: flattenResponse_def messageID_of_def)
  qed
qed

theorem flattenResponse_outcome_witness:
  "flattenResponse ''111'' (Some (response_with 200 ''wamid.A''))
     = Inr \<lparr>StatusCode = 200, Receiver = ''111'', MessageID = ''wamid.A''\<rparr>
   \<and> flattenResponse ''111'' (Some \<lparr>wStatusCode = 200, wHeaders = [], wMessage = None\<rparr>)
     = Inr \<lparr>StatusCode = 200, Receiver = ''111'', MessageID = ''''\<rparr>
   \<and> wMessage (nil_first_entry\<lparr>wStatusCode := 201\<rparr>)
     = Some \<lparr>Product = ''whatsapp'', Contacts = [], Messages = [None]\<rparr>
   \<and> flattenResponse ''222'' (Some (nil_first_entry\<lparr>wStatusCode := 201\<rparr>)) = Inl NilDereference"
proof -
  have h1: "\<forall>m rest. wMessage (response_with 200 ''wamid.A'') = Some m \<longrightarrow> Messages m \<noteq> None # rest"
    by (simp add: response_with_def)
  have h2: "\<forall>m rest. wMessage \<lparr>wStatusCode = 200, wHeaders = [], wMessage = None\<rparr> = Some m
              \<longrightarrow> Messages m \<noteq> None # rest"
    by simp
  have h3: "wMessage (nil_first_entry\<lparr>wStatusCode := 201\<rparr>)
     = Some \<lparr>Product = ''whatsapp'', Contacts = [], Messages = [None]\<rparr>"
    by (simp add: nil_first_entry_def)
  then have h4: "\<exists>m rest. wMessage (nil_first_entry\<lparr>wStatusCode := 201\<rparr>) = Some m
                   \<and> Messages m = None # rest"
    by simp
  show ?thesis
    using flattenResponse_outcome [of "response_with 200 ''wamid.A''" "''111''"] h1
      flattenResponse_outcome [of "\<lparr>wStatusCode = 200, wHeaders = [], wMessage = None\<rparr>" "''111''"] h2
      flattenResponse_outcome [of "nil_first_entry\<lparr>wStatusCode := 201\<rparr>" "''222''"] h3 h4
    by (auto simp: response_with_def)
qed

text \<open>
  Two successful sends that produce no outcome: the response whose list of messages
  holds a nil pointer, and the nil response. In both \<^verbatim>\<open>flattenResponse\<close> panics, and
  with it the process of the task that called it.
\<close>

theorem successful_send_without_outcome:
  "flattenResponse ''111'' (Some nil_first_entry) = Inl NilDereference
   \<and> map_option status
        (exec nil_entry_response [MainStep, RunStep, CoordStep, SendReturns 0, TaskStep 0]
           (init [''111'']))
       = Some (Panicked NilDereference)
   \<and> map_option responseChan
        (exec nil_entry_response [MainStep, RunStep, CoordStep, SendReturns 0, TaskStep 0]
           (init [''111'']))
       = Some []
   \<and> flattenResponse ''111'' None = Inl NilDereference"
  by (simp add: scenario_defs nil_entry_response_def nil_first_entry_def)

text \<open>
  \<^bold>\<open>C10.\<close> The guard of line 43 keeps the read of the message identifier away from a
  nil response, but line 47 reads \<^verbatim>\<open>response.StatusCode\<close> outside it: on a nil response
  \<^verbatim>\<open>flattenResponse\<close> panics, and so does the process whose task got a nil response
  with a nil error from its send.
\<close>

theorem flattenResponse_nil_panics:
  "messageID_of None = Inr ''''
   \<and> flattenResponse receiver None = Inl NilDereference
   \<and> map_option status
        (exec nil_response [MainStep, RunStep, CoordStep, SendReturns 0, TaskStep 0] (init [receiver]))
       = Some (Panicked NilDereference)"
  by (simp add: scenario_defs nil_response_def)

section \<open>The join of the coordinator\<close>

text \<open>
  \<^bold>\<open>C1.\<close> The coordinator is past \<^verbatim>\<open>errg.Wait()\<close> only when one task has been started
  for each recipient and every one of them has returned, whatever the tasks returned:
  the join is strict. A task that returns an error does cancel the context \<^verbatim>\<open>gctx\<close>
  of the group, the one every sibling passed to its send.
\<close>

theorem strict_join:
  assumes "exec env tr (init rs) = Some s"
  shows "(past_wait (cpc s) \<longrightarrow>
            map fst (tasks s) = rs \<and> (\<forall>t \<in> set (tasks s). returned (snd t)))
         \<and> (some_failed (tasks s) \<longrightarrow> gctxDone s)"
proof -
  from assms have j: "join_inv s" by (rule join_exec)
  from assms have r: "Recipients s = rs" by (rule Recipients_exec)
  have "map fst (tasks s) = rs" if "past_wait (cpc s)"
    using that j r by (cases "cpc s") (simp_all add: join_inv_def)
  moreover have "\<forall>t \<in> set (tasks s). returned (snd t)" if "past_wait (cpc s)"
    using that j by (auto simp: join_inv_def intro: pending_zero_returned)
  moreover have "gctxDone s" if "some_failed (tasks s)"
    using that j by (simp add: join_inv_def gctxDone_def)
  ultimately show ?thesis by blast
qed

theorem strict_join_witness:
  "exec first_fails all_tasks_return (init [''111'', ''222'']) \<noteq> None
   \<and> past_wait (cpc (the (exec first_fails all_tasks_return (init [''111'', ''222'']))))
   \<and> some_failed (tasks (the (exec first_fails all_tasks_return (init [''111'', ''222'']))))
   \<and> map fst (tasks (the (exec first_fails all_tasks_return (init [''111'', ''222'']))))
       = [''111'', ''222'']
   \<and> gctxDone (the (exec first_fails all_tasks_return (init [''111'', ''222''])))"
proof -
  have ev: "map_option (\<lambda>s. (cpc s, tasks s)) (exec first_fails all_tasks_return (init [''111'', ''222'']))
       = Some (CEnd, [(''111'', TEnd (Some (SendFailed ''500''))), (''222'', TEnd None)])"
    by (simp add: scenario_defs first_fails_def all_tasks_return_def)
  then obtain s where e: "exec first_fails all_tasks_return (init [''111'', ''222'']) = Some s"
    and c: "cpc s = CEnd"
    and t: "tasks s = [(''111'', TEnd (Some (SendFailed ''500''))), (''222'', TEnd None)]"
    by auto
  from c have p: "past_wait (cpc s)" by simp
  from t have f: "some_failed (tasks s)" by (simp add: some_failed_def)
  from strict_join [OF e] p f e show ?thesis by simp
qed

text \<open>
  The failure of the first recipient's send while the second recipient's send is still
  in flight: the context that the second send runs under is done, and a send that
  observes its context ends with an error and writes no outcome. The same send
  succeeds and writes its outcome when it returns before the first failure.
\<close>

theorem failure_cancels_sibling_scope:
  "exec first_fails_others_observe first_task_returns (init [''111'', ''222'']) \<noteq> None
   \<and> map snd (tasks (the (exec first_fails_others_observe first_task_returns
                              (init [''111'', ''222'']))))
       = [TEnd (Some (SendFailed ''500'')), TSend]
   \<and> gctxDone (the (exec first_fails_others_observe first_task_returns (init [''111'', ''222''])))
   \<and> map snd (tasks (the (exec first_fails_others_observe failure_first
                              (init [''111'', ''222'']))))
       = [TEnd (Some (SendFailed ''500'')), TEnd (Some (SendFailed ''context canceled''))]
   \<and> responseChan (the (exec first_fails_others_observe failure_first (init [''111'', ''222'']))) = []
   \<and> map snd (tasks (the (exec first_fails_others_observe failure_last
                              (init [''111'', ''222'']))))
       = [TEnd (Some (SendFailed ''500'')), TEnd None]
   \<and> responseChan (the (exec first_fails_others_observe failure_last (init [''111'', ''222''])))
       = [\<lparr>StatusCode = 200, Receiver = ''222'', MessageID = ''wamid.B''\<rparr>]"
  by (simp add: scenario_defs first_fails_others_observe_def first_task_returns_def
        failure_first_def failure_last_def gctxDone_def)

section \<open>What main builds from the environment\<close>

text \<open>
  \<^bold>\<open>C9.\<close> With \<^verbatim>\<open>INPUT_RECIPIENTS\<close> empty, \<^verbatim>\<open>main\<close> builds the list whose one element is
  the empty string. Whatever the variable holds, the list is not empty, so in no
  schedule does \<^verbatim>\<open>Run\<close> return the error of line 57, nor is that error ever sent to
  \<^verbatim>\<open>main\<close> or printed. With the empty variable the coordinator starts a task whose
  recipient is the empty string, and the task enters \<^verbatim>\<open>SendTextMessage\<close>.
\<close>

theorem empty_variable_one_recipient:
  "main_Recipients [] = [[]]
   \<and> (exec env tr (init (main_Recipients v)) = Some s \<longrightarrow>
        rpc s \<noteq> RReturn (Some NoRecipients)
        \<and> Some NoRecipients \<notin> set (mainErrChan s)
        \<and> ErrorLine NoRecipients \<notin> set (stderr s))
   \<and> map_option tasks (exec env [MainStep, RunStep, CoordStep] (init (main_Recipients [])))
       = Some [([], TSend)]"
proof -
  have a: "main_Recipients [] = [[]]" by (simp add: main_Recipients_def)
  have b: "rpc s \<noteq> RReturn (Some NoRecipients)
        \<and> Some NoRecipients \<notin> set (mainErrChan s)
        \<and> ErrorLine NoRecipients \<notin> set (stderr s)"
    if e: "exec env tr (init (main_Recipients v)) = Some s"
  proof -
    from e have "Recipients s = main_Recipients v" by (rule Recipients_exec)
    then have n: "Recipients s \<noteq> []" by (simp add: main_Recipients_def Split_nonempty)
    from e have "report_inv s" by (rule report_exec)
    with n show ?thesis by (auto simp: report_inv_def from_Run_def)
  qed
  have c: "map_option tasks (exec env [MainStep, RunStep, CoordStep] (init (main_Recipients [])))
       = Some [([], TSend)]"
    by (simp add: a init_def step_def step_defs)
  from a b c show ?thesis by blast
qed

theorem empty_variable_one_recipient_witness:
  "exec both_succeed interrupt_then_exit (init (main_Recipients '''')) \<noteq> None
   \<and> rpc (the (exec both_succeed interrupt_then_exit (init (main_Recipients '''')))) = REnd
   \<and> stderr (the (exec both_succeed interrupt_then_exit (init (main_Recipients ''''))))
       = [ReceivedSignal, ErrorLine Canceled]
   \<and> ErrorLine NoRecipients \<notin> set (stderr (the (exec both_succeed interrupt_then_exit (init (main_Recipients '''')))))"
proof -
  have ev: "map_option (\<lambda>s. (rpc s, stderr s)) (exec both_succeed interrupt_then_exit (init (main_Recipients '''')))
       = Some (REnd, [ReceivedSignal, ErrorLine Canceled])"
    by (simp add: scenario_defs main_Recipients_def interrupt_then_exit_def interrupt_in_flight_def)
  then obtain s where e: "exec both_succeed interrupt_then_exit (init (main_Recipients '''')) = Some s"
    and r: "rpc s = REnd" and l: "stderr s = [ReceivedSignal, ErrorLine Canceled]"
    by auto
  from empty_variable_one_recipient [of both_succeed interrupt_then_exit "''''" s] e r l
  show ?thesis by simp
qed

section \<open>The end of the process\<close>

text \<open>
  \<^bold>\<open>C4.\<close> Recipients \<^verbatim>\<open>111\<close> and \<^verbatim>\<open>222\<close>, both sends succeed with status 200 and the
  identifiers \<^verbatim>\<open>wamid.A\<close> and \<^verbatim>\<open>wamid.B\<close>. In no schedule does the process exit with
  status 0; and in a schedule without an interrupt signal the process neither exits
  nor panics and prints no outcome: \<^verbatim>\<open>main\<close> waits in the select of line 195 for a
  signal.
\<close>

theorem scenario_never_exits_zero:
  assumes "exec both_succeed tr (init [''111'', ''222'']) = Some s"
  shows "status s \<noteq> Exited 0
         \<and> (Signal \<notin> set tr \<longrightarrow> status s = Running \<and> stdout s = [])"
proof -
  from assms have "report_inv s" by (rule report_exec)
  then have "status s \<noteq> Exited 0" by (simp add: report_inv_def)
  moreover have "status s = Running \<and> stdout s = []" if "Signal \<notin> set tr"
    using unsignalled_exec [OF that assms] calm_exec [OF that assms]
    by (simp add: unsignalled_def calm_inv_def)
  ultimately show ?thesis by blast
qed

theorem scenario_never_exits_zero_witness:
  "exec both_succeed all_tasks_return (init [''111'', ''222'']) \<noteq> None
   \<and> Signal \<notin> set all_tasks_return
   \<and> map snd (tasks (the (exec both_succeed all_tasks_return (init [''111'', ''222'']))))
       = [TEnd None, TEnd None]
   \<and> rpc (the (exec both_succeed all_tasks_return (init [''111'', ''222'']))) = RRange
   \<and> mpc (the (exec both_succeed all_tasks_return (init [''111'', ''222'']))) = MSelect
   \<and> status (the (exec both_succeed all_tasks_return (init [''111'', ''222'']))) = Running
   \<and> stdout (the (exec both_succeed all_tasks_return (init [''111'', ''222'']))) = []"
proof -
  have ev: "map_option (\<lambda>s. (map snd (tasks s), rpc s, mpc s))
              (exec both_succeed all_tasks_return (init [''111'', ''222'']))
       = Some ([TEnd None, TEnd None], RRange, MSelect)"
    by (simp add: scenario_defs both_succeed_def all_tasks_return_def)
  then obtain s where e: "exec both_succeed all_tasks_return (init [''111'', ''222'']) = Some s"
    and t: "map snd (tasks s) = [TEnd None, TEnd None]" and r: "rpc s = RRange" and m: "mpc s = MSelect"
    by auto
  have n: "Signal \<notin> set all_tasks_return" by (simp add: all_tasks_return_def)
  from scenario_never_exits_zero [OF e] n e t r m show ?thesis by simp
qed


text \<open>Without a signal a run with no recipients is still running and has printed
  nothing: \<^verbatim>\<open>main\<close> reaches line 208 only by the signal branch of its select.\<close>

lemma no_recipients_waits:
  assumes "Signal \<notin> set tr" and "exec env tr (init []) = Some s"
  shows "status s = Running \<and> stderr s = [] \<and> (mpc s = MStart \<or> mpc s = MSelect)"
proof -
  from unsignalled_exec [OF assms] have u: "stderr s = []" "\<forall>n. status s \<noteq> Exited n"
      "mpc s = MStart \<or> mpc s = MSelect"
    by (simp_all add: unsignalled_def)
  from assms(2) have "no_recipients_inv s" by (rule no_recipients_exec)
  then have "status s = Running \<or> status s = Exited 1" by (auto simp: no_recipients_inv_def)
  with u show ?thesis by auto
qed



section \<open>The aggregated error\<close>

text \<open>
  \<^bold>\<open>C2.\<close> Recipients \<^verbatim>\<open>111\<close> and \<^verbatim>\<open>222\<close>, both sends fail. In every schedule the slice
  \<^verbatim>\<open>allErrors\<close> of \<^verbatim>\<open>Run\<close> stays empty, the only value that \<^verbatim>\<open>Run\<close> ever hands to
  \<^verbatim>\<open>main\<close> is the single error \<^verbatim>\<open>context.Canceled\<close>, the only lines on the standard
  error are the signal and that error, and the channel of outcomes and the standard
  output stay empty.
\<close>

theorem all_fail_one_cancellation:
  assumes "exec all_fail tr (init [''111'', ''222'']) = Some s"
  shows "allErrors s = []
         \<and> (\<forall>v \<in> set (mainErrChan s). v = Some Canceled)
         \<and> (\<forall>l \<in> set (stderr s). l = ReceivedSignal \<or> l = ErrorLine Canceled)
         \<and> responseChan s = [] \<and> stdout s = []"
proof -
  from assms have "range_inv s" by (rule range_exec)
  then have a: "allErrors s = []" by (simp add: range_inv_def)
  from assms have r: "Recipients s = [''111'', ''222'']" by (rule Recipients_exec)
  from assms have "report_inv s" by (rule report_exec)
  with r have b: "\<forall>v \<in> set (mainErrChan s). v = Some Canceled"
    and c: "\<forall>l \<in> set (stderr s). l = ReceivedSignal \<or> l = ErrorLine Canceled"
    by (auto simp: report_inv_def from_Run_def)
  from assms have "all_fail_inv s" by (rule all_fail_exec)
  then have d: "responseChan s = [] \<and> stdout s = []" by (simp add: all_fail_inv_def)
  from a b c d show ?thesis by blast
qed

theorem all_fail_one_cancellation_witness:
  "exec all_fail all_tasks_return (init [''111'', ''222'']) \<noteq> None
   \<and> map snd (tasks (the (exec all_fail all_tasks_return (init [''111'', ''222'']))))
       = [TEnd (Some (SendFailed ''x'')), TEnd (Some (SendFailed ''xx''))]
   \<and> cpc (the (exec all_fail all_tasks_return (init [''111'', ''222'']))) = CEnd
   \<and> rpc (the (exec all_fail all_tasks_return (init [''111'', ''222'']))) = RRange
   \<and> runErrChan (the (exec all_fail all_tasks_return (init [''111'', ''222'']))) = []
   \<and> mainErrChan (the (exec all_fail all_tasks_return (init [''111'', ''222'']))) = []
   \<and> allErrors (the (exec all_fail all_tasks_return (init [''111'', ''222'']))) = []
   \<and> responseChan (the (exec all_fail all_tasks_return (init [''111'', ''222'']))) = []"
proof -
  have ev: "map_option (\<lambda>s. (map snd (tasks s), cpc s, rpc s, runErrChan s, mainErrChan s))
              (exec all_fail all_tasks_return (init [''111'', ''222'']))
       = Some ([TEnd (Some (SendFailed ''x'')), TEnd (Some (SendFailed ''xx''))], CEnd, RRange, [], [])"
    by (simp add: scenario_defs all_fail_def all_tasks_return_def)
  then obtain s where e: "exec all_fail all_tasks_return (init [''111'', ''222'']) = Some s"
    and t: "map snd (tasks s) = [TEnd (Some (SendFailed ''x'')), TEnd (Some (SendFailed ''xx''))]"
    and c: "cpc s = CEnd" and r: "rpc s = RRange" and q: "runErrChan s = []" and m: "mainErrChan s = []"
    by auto
  from all_fail_one_cancellation [OF e] e t c r q m show ?thesis by simp
qed

text \<open>
  \<^bold>\<open>C5.\<close> Recipients \<^verbatim>\<open>111\<close>, \<^verbatim>\<open>222\<close>, \<^verbatim>\<open>333\<close>; the first send succeeds and the other
  two fail. When all three tasks have returned and the coordinator has returned, the
  channel of outcomes holds the one outcome of the successful send, the group's error
  is the error of the second recipient alone, \<^verbatim>\<open>allErrors\<close> is empty, \<^verbatim>\<open>Run\<close> sits in
  the range of line 105 and \<^verbatim>\<open>main\<close> has been handed nothing.
\<close>

theorem first_error_only:
  "map_option (map snd \<circ> tasks) (exec first_succeeds three_tasks_return (init [''111'', ''222'', ''333'']))
     = Some [TEnd None, TEnd (Some (SendFailed ''x'')), TEnd (Some (SendFailed ''xx''))]
   \<and> map_option responseChan (exec first_succeeds three_tasks_return (init [''111'', ''222'', ''333'']))
     = Some [\<lparr>StatusCode = 200, Receiver = ''111'', MessageID = ''wamid.A''\<rparr>]
   \<and> map_option gerr (exec first_succeeds three_tasks_return (init [''111'', ''222'', ''333'']))
     = Some (Some (SendFailed ''x''))
   \<and> map_option (joined_count \<circ> gerr)
        (exec first_succeeds three_tasks_return (init [''111'', ''222'', ''333''])) = Some 1
   \<and> map_option allErrors (exec first_succeeds three_tasks_return (init [''111'', ''222'', ''333'']))
     = Some []
   \<and> map_option rpc (exec first_succeeds three_tasks_return (init [''111'', ''222'', ''333'']))
     = Some RRange
   \<and> map_option mainErrChan (exec first_succeeds three_tasks_return (init [''111'', ''222'', ''333'']))
     = Some []"
  by (simp add: scenario_defs first_succeeds_def three_tasks_return_def numeral_2_eq_2)

section \<open>Who closes the channel of outcomes\<close>

text \<open>
  \<^bold>\<open>C3.\<close> An interrupt after the coordinator has closed \<^verbatim>\<open>responseChan\<close> takes
  \<^verbatim>\<open>main\<close> to line 202, which closes the channel a second time and panics. An
  interrupt while a send is in flight lets \<^verbatim>\<open>main\<close> close the channel before the
  producer has returned, and the producer's write of line 126 then panics.
\<close>

theorem two_closers:
  "map_option status (exec both_succeed interrupt_after_return (init [''111'', ''222'']))
     = Some (Panicked CloseOfClosedChannel)
   \<and> map_option closers (exec both_succeed interrupt_after_return (init [''111'', ''222'']))
     = Some [ByCoordinator]
   \<and> map_option mpc (exec both_succeed interrupt_after_return (init [''111'', ''222'']))
     = Some MClose
   \<and> map_option closers (exec both_succeed interrupt_in_flight (init [''111''])) = Some [ByMain]
   \<and> map_option tasks (exec both_succeed interrupt_in_flight (init [''111'']))
     = Some [(''111'', TSend)]
   \<and> map_option status (exec both_succeed interrupt_then_return (init [''111'']))
     = Some (Panicked SendOnClosedChannel)"
  by (simp add: scenario_defs both_succeed_def interrupt_after_return_def all_tasks_return_def
        interrupt_in_flight_def interrupt_then_return_def)

text \<open>
  \<^bold>\<open>C7.\<close> One recipient and an interrupt before its task completes. When the send then
  returns a response all the same, the task's write panics on the channel that
  \<^verbatim>\<open>main\<close> closed; when the send observes the cancellation and returns an error, the
  task returns, the coordinator comes back from its wait and its deferred close
  panics. In both schedules the standard error holds only the signal. When \<^verbatim>\<open>main\<close>
  and \<^verbatim>\<open>Run\<close> finish before the task moves, the process prints \<^verbatim>\<open>context.Canceled\<close>
  and exits with status 1. When the task's write comes between the print of line 209
  and the exit of line 210, the error is printed and the process still ends with the
  panic; the outcome of the send is lost.
\<close>

theorem interrupt_races_with_tasks:
  "map_option status (exec both_succeed interrupt_then_return (init [''111'']))
     = Some (Panicked SendOnClosedChannel)
   \<and> map_option stderr (exec both_succeed interrupt_then_return (init [''111'']))
     = Some [ReceivedSignal]
   \<and> map_option stdout (exec both_succeed interrupt_then_return (init [''111''])) = Some []
   \<and> map_option status (exec succeed_unless_cancelled interrupt_then_join (init [''111'']))
     = Some (Panicked CloseOfClosedChannel)
   \<and> map_option stderr (exec succeed_unless_cancelled interrupt_then_join (init [''111'']))
     = Some [ReceivedSignal]
   \<and> map_option status (exec succeed_unless_cancelled interrupt_then_exit (init [''111'']))
     = Some (Exited 1)
   \<and> map_option stderr (exec succeed_unless_cancelled interrupt_then_exit (init [''111'']))
     = Some [ReceivedSignal, ErrorLine Canceled]
   \<and> map_option status (exec both_succeed interrupt_report_then_return (init [''111'']))
     = Some (Panicked SendOnClosedChannel)
   \<and> map_option stderr (exec both_succeed interrupt_report_then_return (init [''111'']))
     = Some [ReceivedSignal, ErrorLine Canceled]
   \<and> map_option stdout (exec both_succeed interrupt_report_then_return (init [''111'']))
     = Some []"
  by (simp add: scenario_defs both_succeed_def succeed_unless_cancelled_def gctxDone_def
        interrupt_then_join_def interrupt_then_exit_def interrupt_in_flight_def
        interrupt_then_return_def interrupt_report_then_return_def)

end
